theory Spec2Isabelle
  imports Main "HOL-Library.Sublist" "HOL-Library.Word"
begin

unbundle bit_operations_syntax

section \<open>Python values and exceptions\<close>

text \<open>
  The two Lambda handlers (\<^verbatim>\<open>components/rag_api/runtime/index.py\<close> and
  \<^verbatim>\<open>components/text_api/runtime/index.py\<close>) pass around untyped Python values: parsed
  JSON, the dictionaries made by \<^verbatim>\<open>build_response\<close>, the tuple returned by
  \<^verbatim>\<open>get_credentials\<close>. They are modelled by one datatype. A dictionary is an
  association list in insertion order (its keys are always strings here); a string is a
  list of code points below 256; a float is never computed with and is carried as the
  text of its \<^verbatim>\<open>repr\<close>.
\<close>

datatype pyval =
    PNone
  | PBool bool
  | PInt int
  | PFloat string
  | PStr string
  | PList "pyval list"
  | PTuple "pyval list"
  | PDict "(string \<times> pyval) list"

text \<open>
  An exception is a value. \<open>ClientError name message text\<close> is botocore's
  \<^verbatim>\<open>ClientError\<close> or one of its subclasses: the class name, the service's
  \<^verbatim>\<open>e.response["Error"]["Message"]\<close> and \<^verbatim>\<open>str(e)\<close>. \<open>Exception name text\<close> is any
  other subclass of \<^verbatim>\<open>Exception\<close>: the class name and \<^verbatim>\<open>str(e)\<close>.
\<close>

datatype exn =
    ClientError string string string
  | Exception string string

fun exn_name :: "exn \<Rightarrow> string" where
  "exn_name (ClientError n m s) = n"
| "exn_name (Exception n s) = n"

fun exn_str :: "exn \<Rightarrow> string" where
  "exn_str (ClientError n m s) = s"
| "exn_str (Exception n s) = s"

type_synonym 'a result = "exn + 'a"

subsection \<open>Printing numbers\<close>

definition digit_char :: "nat \<Rightarrow> char" where
  "digit_char d = char_of (48 + d)"

fun nat_str :: "nat \<Rightarrow> string" where
  "nat_str n = (if n < 10 then [digit_char n] else nat_str (n div 10) @ [digit_char (n mod 10)])"

declare nat_str.simps [simp del]

definition int_str :: "int \<Rightarrow> string" where
  "int_str i = (if i < 0 then CHR ''-'' # nat_str (nat (- i)) else nat_str (nat i))"

definition hex_char :: "nat \<Rightarrow> char" where
  "hex_char d = (if d < 10 then char_of (48 + d) else char_of (87 + d))"

definition hex2 :: "char \<Rightarrow> string" where
  "hex2 c = [hex_char (of_char c div 16), hex_char (of_char c mod 16)]"

fun py_join :: "string \<Rightarrow> string list \<Rightarrow> string" where
  "py_join sep [] = []"
| "py_join sep [x] = x"
| "py_join sep (x # y # ys) = x @ sep @ py_join sep (y # ys)"

subsection \<open>\<^verbatim>\<open>json.dumps\<close>\<close>

text \<open>
  \<^verbatim>\<open>json.dumps\<close> with its defaults: \<^verbatim>\<open>ensure_ascii=True\<close>, separators \<^verbatim>\<open>", "\<close> and
  \<^verbatim>\<open>": "\<close>, tuples written as arrays, and every character outside the printable ASCII
  range written as an escape.
\<close>

definition json_escape_char :: "char \<Rightarrow> string" where
  \<open>json_escape_char c =
     (if c = CHR 0x22 then [CHR 0x5C, CHR 0x22]
      else if c = CHR 0x5C then [CHR 0x5C, CHR 0x5C]
      else if c = CHR 0x0A then [CHR 0x5C, CHR ''n'']
      else if c = CHR 0x0D then [CHR 0x5C, CHR ''r'']
      else if c = CHR 0x09 then [CHR 0x5C, CHR ''t'']
      else if c = CHR 0x08 then [CHR 0x5C, CHR ''b'']
      else if c = CHR 0x0C then [CHR 0x5C, CHR ''f'']
      else if (of_char c :: nat) < 32 \<or> 126 < (of_char c :: nat)
        then [CHR 0x5C, CHR ''u'', CHR ''0'', CHR ''0''] @ hex2 c
      else [c])\<close>

definition json_string :: "string \<Rightarrow> string" where
  \<open>json_string s = [CHR 0x22] @ concat (map json_escape_char s) @ [CHR 0x22]\<close>

definition json_float :: "string \<Rightarrow> string" where
  "json_float r =
     (if r = ''nan'' then ''NaN''
      else if r = ''inf'' then ''Infinity''
      else if r = ''-inf'' then ''-Infinity''
      else r)"

fun json_dumps :: "pyval \<Rightarrow> string" where
  "json_dumps PNone = ''null''"
| "json_dumps (PBool b) = (if b then ''true'' else ''false'')"
| "json_dumps (PInt i) = int_str i"
| "json_dumps (PFloat r) = json_float r"
| "json_dumps (PStr s) = json_string s"
| "json_dumps (PList xs) = ''['' @ py_join '', '' (map json_dumps xs) @ '']''"
| "json_dumps (PTuple xs) = ''['' @ py_join '', '' (map json_dumps xs) @ '']''"
| "json_dumps (PDict kvs) =
     ''{'' @ py_join '', '' (map (\<lambda>kv. json_string (fst kv) @ '': '' @ json_dumps (snd kv)) kvs) @ ''}''"

subsection \<open>\<^verbatim>\<open>str\<close> and \<^verbatim>\<open>repr\<close>\<close>

text \<open>
  An f-string field \<^verbatim>\<open>{x}\<close> prints \<^verbatim>\<open>str(x)\<close>: a string as it is, any other value
  by its \<^verbatim>\<open>repr\<close>. The \<^verbatim>\<open>repr\<close> of a string picks its quote as CPython does and
  escapes what CPython calls non-printable (on code points below 256).
\<close>

definition repr_quote :: "string \<Rightarrow> char" where
  "repr_quote s = (if CHR 0x27 \<in> set s \<and> CHR 0x22 \<notin> set s then CHR 0x22 else CHR 0x27)"

definition repr_escape_char :: "char \<Rightarrow> char \<Rightarrow> string" where
  "repr_escape_char q c =
     (if c = q \<or> c = CHR 0x5C then [CHR 0x5C, c]
      else if c = CHR 0x09 then [CHR 0x5C, CHR ''t'']
      else if c = CHR 0x0A then [CHR 0x5C, CHR ''n'']
      else if c = CHR 0x0D then [CHR 0x5C, CHR ''r'']
      else if (of_char c :: nat) < 32 \<or> (of_char c :: nat) = 127
              \<or> (128 \<le> (of_char c :: nat) \<and> (of_char c :: nat) \<le> 160) \<or> (of_char c :: nat) = 173
        then [CHR 0x5C, CHR ''x''] @ hex2 c
      else [c])"

definition repr_str :: "string \<Rightarrow> string" where
  "repr_str s = [repr_quote s] @ concat (map (repr_escape_char (repr_quote s)) s) @ [repr_quote s]"

fun py_repr :: "pyval \<Rightarrow> string" where
  "py_repr PNone = ''None''"
| "py_repr (PBool b) = (if b then ''True'' else ''False'')"
| "py_repr (PInt i) = int_str i"
| "py_repr (PFloat r) = r"
| "py_repr (PStr s) = repr_str s"
| "py_repr (PList xs) = ''['' @ py_join '', '' (map py_repr xs) @ '']''"
| "py_repr (PTuple xs) =
     (if length xs = 1 then ''('' @ py_join '', '' (map py_repr xs) @ '',)''
      else ''('' @ py_join '', '' (map py_repr xs) @ '')'')"
| "py_repr (PDict kvs) =
     ''{'' @ py_join '', '' (map (\<lambda>kv. repr_str (fst kv) @ '': '' @ py_repr (snd kv)) kvs) @ ''}''"

fun py_str :: "pyval \<Rightarrow> string" where
  "py_str (PStr s) = s"
| "py_str v = py_repr v"

text \<open>The f-string field of a configuration value that \<^verbatim>\<open>os.getenv\<close> left at \<^verbatim>\<open>None\<close>.\<close>

fun str_opt :: "string option \<Rightarrow> string" where
  "str_opt None = ''None''"
| "str_opt (Some s) = s"

subsection \<open>Operators of the interpreter\<close>

text \<open>
  Each operator the handlers apply to an untyped value, with the exception CPython raises
  where the value has the wrong type (message texts as CPython 3.12 prints them).
\<close>

fun type_name :: "pyval \<Rightarrow> string" where
  "type_name PNone = ''NoneType''"
| "type_name (PBool b) = ''bool''"
| "type_name (PInt i) = ''int''"
| "type_name (PFloat r) = ''float''"
| "type_name (PStr s) = ''str''"
| "type_name (PList xs) = ''list''"
| "type_name (PTuple xs) = ''tuple''"
| "type_name (PDict kvs) = ''dict''"

definition quoted :: "string \<Rightarrow> string" where
  "quoted s = [CHR 0x27] @ s @ [CHR 0x27]"

text \<open>Truth value, as \<^verbatim>\<open>if x:\<close> tests it.\<close>

fun py_truthy :: "pyval \<Rightarrow> bool" where
  "py_truthy PNone = False"
| "py_truthy (PBool b) = b"
| "py_truthy (PInt i) = (i \<noteq> 0)"
| "py_truthy (PFloat r) = (r \<noteq> ''0.0'' \<and> r \<noteq> ''-0.0'')"
| "py_truthy (PStr s) = (s \<noteq> [])"
| "py_truthy (PList xs) = (xs \<noteq> [])"
| "py_truthy (PTuple xs) = (xs \<noteq> [])"
| "py_truthy (PDict kvs) = (kvs \<noteq> [])"

text \<open>\<^verbatim>\<open>x[k]\<close> with a string \<open>k\<close>.\<close>

fun py_getitem_str :: "pyval \<Rightarrow> string \<Rightarrow> pyval result" where
  "py_getitem_str (PDict kvs) k =
     (case map_of kvs k of
        Some v \<Rightarrow> Inr v
      | None \<Rightarrow> Inl (Exception ''KeyError'' (repr_str k)))"
| "py_getitem_str (PList xs) k =
     Inl (Exception ''TypeError'' ''list indices must be integers or slices, not str'')"
| "py_getitem_str (PTuple xs) k =
     Inl (Exception ''TypeError'' ''tuple indices must be integers or slices, not str'')"
| "py_getitem_str (PStr s) k =
     Inl (Exception ''TypeError'' (''string indices must be integers, not '' @ quoted ''str''))"
| "py_getitem_str v k =
     Inl (Exception ''TypeError'' (quoted (type_name v) @ '' object is not subscriptable''))"

text \<open>\<^verbatim>\<open>x[i]\<close> with an integer \<open>i\<close>; a negative index counts from the end.\<close>

definition seq_index :: "string \<Rightarrow> 'a list \<Rightarrow> int \<Rightarrow> 'a result" where
  "seq_index kind xs i =
     (if 0 \<le> i \<and> nat i < length xs then Inr (xs ! nat i)
      else if i < 0 \<and> nat (- i) \<le> length xs then Inr (xs ! (length xs - nat (- i)))
      else Inl (Exception ''IndexError'' (kind @ '' index out of range'')))"

fun py_getitem_int :: "pyval \<Rightarrow> int \<Rightarrow> pyval result" where
  "py_getitem_int (PList xs) i = seq_index ''list'' xs i"
| "py_getitem_int (PTuple xs) i = seq_index ''tuple'' xs i"
| "py_getitem_int (PStr s) i = map_sum id (\<lambda>c. PStr [c]) (seq_index ''string'' s i)"
| "py_getitem_int (PDict kvs) i = Inl (Exception ''KeyError'' (int_str i))"
| "py_getitem_int v i =
     Inl (Exception ''TypeError'' (quoted (type_name v) @ '' object is not subscriptable''))"

text \<open>\<^verbatim>\<open>k in x\<close> with a string \<open>k\<close>.\<close>

fun py_contains_str :: "pyval \<Rightarrow> string \<Rightarrow> bool result" where
  "py_contains_str (PDict kvs) k = Inr (k \<in> set (map fst kvs))"
| "py_contains_str (PList xs) k = Inr (PStr k \<in> set xs)"
| "py_contains_str (PTuple xs) k = Inr (PStr k \<in> set xs)"
| "py_contains_str (PStr s) k = Inr (sublist k s)"
| "py_contains_str v k =
     Inl (Exception ''TypeError'' (''argument of type '' @ quoted (type_name v) @ '' is not iterable''))"

text \<open>\<^verbatim>\<open>x.get(k, default)\<close>: only a dictionary has the method.\<close>

fun py_get :: "pyval \<Rightarrow> string \<Rightarrow> pyval \<Rightarrow> pyval result" where
  "py_get (PDict kvs) k d = Inr (case map_of kvs k of Some v \<Rightarrow> v | None \<Rightarrow> d)"
| "py_get v k d =
     Inl (Exception ''AttributeError''
       (quoted (type_name v) @ '' object has no attribute '' @ quoted ''get''))"

text \<open>The elements \<^verbatim>\<open>for h in x\<close> visits.\<close>

fun py_iter :: "pyval \<Rightarrow> pyval list result" where
  "py_iter (PList xs) = Inr xs"
| "py_iter (PTuple xs) = Inr xs"
| "py_iter (PDict kvs) = Inr (map (\<lambda>kv. PStr (fst kv)) kvs)"
| "py_iter (PStr s) = Inr (map (\<lambda>c. PStr [c]) s)"
| "py_iter v =
     Inl (Exception ''TypeError'' (quoted (type_name v) @ '' object is not iterable''))"

text \<open>The assignment \<^verbatim>\<open>a, b = x\<close>.\<close>

definition unpack2 :: "pyval \<Rightarrow> (pyval \<times> pyval) result" where
  "unpack2 v =
     (case py_iter v of
        Inl e \<Rightarrow> Inl (Exception ''TypeError'' (''cannot unpack non-iterable '' @ type_name v @ '' object''))
      | Inr xs \<Rightarrow>
          (case xs of
             [a, b] \<Rightarrow> Inr (a, b)
           | _ \<Rightarrow>
             if 2 < length xs then Inl (Exception ''ValueError'' ''too many values to unpack (expected 2)'')
             else Inl (Exception ''ValueError''
                    (''not enough values to unpack (expected 2, got '' @ nat_str (length xs) @ '')''))))"

text \<open>\<^verbatim>\<open>d[k] = v\<close> on a dictionary: a key already there keeps its place.\<close>

fun dict_set :: "(string \<times> pyval) list \<Rightarrow> string \<Rightarrow> pyval \<Rightarrow> (string \<times> pyval) list" where
  "dict_set [] k v = [(k, v)]"
| "dict_set ((k', v') # kvs) k v = (if k' = k then (k, v) # kvs else (k', v') # dict_set kvs k v)"

subsection \<open>\<^verbatim>\<open>base64.b64encode\<close>\<close>

type_synonym byte = "8 word"

text \<open>
  The digits of the standard alphabet: \<^verbatim>\<open>A\<close> to \<^verbatim>\<open>Z\<close>, \<^verbatim>\<open>a\<close> to \<^verbatim>\<open>z\<close>, \<^verbatim>\<open>0\<close> to \<^verbatim>\<open>9\<close>,
  \<^verbatim>\<open>+\<close> and \<^verbatim>\<open>/\<close>.
\<close>

definition b64_char :: "nat \<Rightarrow> char" where
  "b64_char i =
     (if i < 26 then char_of (65 + i)
      else if i < 52 then char_of (71 + i)
      else if i < 62 then char_of (i - 4)
      else if i = 62 then CHR ''+''
      else CHR ''/'')"

text \<open>
  Three bytes are written as four digits of six bits each; a last group of one or two
  bytes is filled with zero bits and closed with \<^verbatim>\<open>=\<close>.
\<close>

fun b64encode :: "byte list \<Rightarrow> string" where
  "b64encode [] = []"
| "b64encode [a] =
     [b64_char (unat a div 4), b64_char (unat a mod 4 * 16), CHR ''='', CHR ''='']"
| "b64encode [a, b] =
     [b64_char (unat a div 4), b64_char (unat a mod 4 * 16 + unat b div 16),
      b64_char (unat b mod 16 * 4), CHR ''='']"
| "b64encode (a # b # c # rest) =
     [b64_char (unat a div 4), b64_char (unat a mod 4 * 16 + unat b div 16),
      b64_char (unat b mod 16 * 4 + unat c div 64), b64_char (unat c mod 64)] @ b64encode rest"

text \<open>
  Modelled from the spec: the client that decodes \<^verbatim>\<open>sound_response\<close> and
  \<^verbatim>\<open>viseme_response\<close> is not part of the source; its decoder is the standard one of
  RFC 4648, which reads four digits at a time and accepts padding in the last group only.
\<close>

definition b64_index :: "char \<Rightarrow> nat option" where
  "b64_index c =
     (let k = (of_char c :: nat)
      in if 65 \<le> k \<and> k \<le> 90 then Some (k - 65)
         else if 97 \<le> k \<and> k \<le> 122 then Some (k - 71)
         else if 48 \<le> k \<and> k \<le> 57 then Some (k + 4)
         else if k = 43 then Some 62
         else if k = 47 then Some 63
         else None)"

fun b64decode :: "string \<Rightarrow> byte list option" where
  "b64decode [] = Some []"
| "b64decode (c1 # c2 # c3 # c4 # rest) =
     (case (b64_index c1, b64_index c2) of
        (Some i1, Some i2) \<Rightarrow>
          if c3 = CHR ''='' \<and> c4 = CHR ''='' \<and> rest = [] then Some [of_nat (i1 * 4 + i2 div 16)]
          else (case b64_index c3 of
                  Some i3 \<Rightarrow>
                    if c4 = CHR ''='' \<and> rest = []
                    then Some [of_nat (i1 * 4 + i2 div 16), of_nat (i2 mod 16 * 16 + i3 div 4)]
                    else (case b64_index c4 of
                            Some i4 \<Rightarrow>
                              map_option
                                (\<lambda>bs. of_nat (i1 * 4 + i2 div 16) # of_nat (i2 mod 16 * 16 + i3 div 4)
                                        # of_nat (i3 mod 4 * 64 + i4) # bs)
                                (b64decode rest)
                          | None \<Rightarrow> None)
                | None \<Rightarrow> None)
      | _ \<Rightarrow> None)"
| "b64decode cs = None"

section \<open>\<^verbatim>\<open>build_response\<close>\<close>

text \<open>
  \<^verbatim>\<open>build_response\<close> is defined twice, with the same body: in the handler with
  retrieval (\<^verbatim>\<open>rag_api\<close>) and in the handler without (\<^verbatim>\<open>text_api\<close>, here
  \<open>build_response_text\<close>).
\<close>

definition build_response :: "pyval \<Rightarrow> pyval" where
  "build_response body =
     PDict [(''statusCode'', PInt 200),
            (''headers'', PDict [(''Content-Type'', PStr ''application/json'')]),
            (''body'', PStr (json_dumps body))]"

definition build_response_text :: "pyval \<Rightarrow> pyval" where
  "build_response_text body =
     PDict [(''statusCode'', PInt 200),
            (''headers'', PDict [(''Content-Type'', PStr ''application/json'')]),
            (''body'', PStr (json_dumps body))]"

section \<open>Remote services and configuration\<close>

text \<open>
  Every remote call the handler makes is recorded, in order, with its arguments: the
  Secrets Manager lookup, the \<^verbatim>\<open>HEAD\<close> probe and the \<^verbatim>\<open>POST\<close> search of
  \<^verbatim>\<open>requests\<close> (URL, user name and password of the basic authentication, JSON payload,
  timeout in seconds), Bedrock's \<^verbatim>\<open>invoke_model\<close> (body, model, accept, content type) and
  Polly's \<^verbatim>\<open>synthesize_speech\<close> (output format, speech mark types when given, text,
  voice, engine).
\<close>

datatype call =
    GetSecretValue "string option" "string option"
  | RequestsHead string pyval pyval nat
  | RequestsPost string pyval pyval pyval nat
  | InvokeModel string string string string
  | SynthesizeSpeech string "string list option" pyval pyval pyval

text \<open>
  The environment of one request: the variables read from \<^verbatim>\<open>os.environ\<close> (those read
  with \<^verbatim>\<open>os.getenv(..., None)\<close> may be absent) and what each service answers to each
  call, a value or an exception. \<open>requests_head\<close> answers with the status code,
  \<open>requests_post\<close> with the parsed JSON of the reply (\<^verbatim>\<open>.json()\<close>), \<open>invoke_model\<close>
  with the text read from the reply's body, \<open>polly_synthesize_speech\<close> with the bytes
  read from \<^verbatim>\<open>AudioStream\<close>. \<open>json_loads\<close> is \<^verbatim>\<open>json.loads\<close> on a text. Creating a boto3
  client makes no remote call and is taken to succeed; log lines are not recorded.
\<close>

record env =
  TEXT_MODEL_ID :: string
  EMBEDDING_MODEL_ID :: string
  OPENSEARCH_ENDPOINT :: "string option"
  OPENSEARCH_SECRET :: "string option"
  OPENSEARCH_INDEX :: "string option"
  AWS_REGION :: "string option"
  AWS_DEFAULT_REGION :: "string option"
  json_loads :: "string \<Rightarrow> pyval result"
  get_secret_value :: "string option \<Rightarrow> string option \<Rightarrow> pyval result"
  requests_head :: "string \<Rightarrow> pyval \<Rightarrow> pyval \<Rightarrow> nat \<Rightarrow> int result"
  requests_post :: "string \<Rightarrow> pyval \<Rightarrow> pyval \<Rightarrow> pyval \<Rightarrow> nat \<Rightarrow> pyval result"
  invoke_model :: "string \<Rightarrow> string \<Rightarrow> string \<Rightarrow> string \<Rightarrow> string result"
  polly_synthesize_speech ::
    "string \<Rightarrow> string list option \<Rightarrow> pyval \<Rightarrow> pyval \<Rightarrow> pyval \<Rightarrow> byte list result"

text \<open>
  A computation yields the calls it made and its outcome: \<open>Inl\<close> an exception that
  propagates, \<open>Inr\<close> the value returned.
\<close>

type_synonym 'a io = "call list \<times> 'a result"

definition io_bind :: "'a io \<Rightarrow> ('a \<Rightarrow> 'b io) \<Rightarrow> 'b io" where
  "io_bind m f =
     (case m of
        (t, Inl e) \<Rightarrow> (t, Inl e)
      | (t, Inr x) \<Rightarrow> (case f x of (t', r) \<Rightarrow> (t @ t', r)))"

definition io_pure :: "'a result \<Rightarrow> 'a io" where
  "io_pure r = ([], r)"

text \<open>\<^verbatim>\<open>try: ... except ClientError as e:\<close> with \<^verbatim>\<open>message = e.response["Error"]["Message"]\<close>.\<close>

definition except_ClientError :: "'a io \<Rightarrow> (string \<Rightarrow> 'a) \<Rightarrow> 'a io" where
  "except_ClientError m h =
     (case m of
        (t, Inl (ClientError n message s)) \<Rightarrow> (t, Inr (h message))
      | _ \<Rightarrow> m)"

text \<open>\<^verbatim>\<open>json.loads\<close> on a value: only a text is parsed.\<close>

fun py_json_loads :: "env \<Rightarrow> pyval \<Rightarrow> pyval result" where
  "py_json_loads env (PStr s) = json_loads env s"
| "py_json_loads env v =
     Inl (Exception ''TypeError''
       (''the JSON object must be str, bytes or bytearray, not '' @ type_name v))"

section \<open>The handler with retrieval (\<^verbatim>\<open>rag_api\<close>)\<close>

fun validate_loop :: "string list \<Rightarrow> pyval \<Rightarrow> pyval result" where
  "validate_loop [] body = Inr PNone"
| "validate_loop (input_name # rest) body =
     (case py_contains_str body input_name of
        Inl e \<Rightarrow> Inl e
      | Inr True \<Rightarrow> validate_loop rest body
      | Inr False \<Rightarrow>
          Inr (build_response
                 (PDict [(''status'', PStr ''error''),
                         (''message'', PStr (input_name @ '' missing in request payload''))])))"

definition validate_inputs :: "pyval \<Rightarrow> pyval result" where
  "validate_inputs body = validate_loop [''question''] body"

definition not_hydrated_message :: string where
  "not_hydrated_message = ''The vector store is not yet hydrated, and cannot be queried for context. Please contact your System Administrator to ingest RAG data.''"

definition verify_index :: "env \<Rightarrow> string \<Rightarrow> string option \<Rightarrow> pyval \<Rightarrow> pyval \<Rightarrow> pyval io" where
  "verify_index env endpoint index username password =
     (let url = endpoint @ ''/'' @ str_opt index
      in io_bind ([RequestsHead url username password 10], requests_head env url username password 10)
           (\<lambda>status_code.
              if status_code \<noteq> 200
              then io_pure (Inr (build_response
                     (PDict [(''status'', PStr ''error''), (''message'', PStr not_hydrated_message)])))
              else io_pure (Inr PNone)))"

definition get_credentials :: "env \<Rightarrow> string option \<Rightarrow> string option \<Rightarrow> pyval io" where
  "get_credentials env secret_id region =
     except_ClientError
       (io_bind ([GetSecretValue secret_id region], get_secret_value env secret_id region)
          (\<lambda>response.
             io_bind (io_pure (py_getitem_str response ''SecretString''))
               (\<lambda>secret_string.
                  io_bind (io_pure (py_json_loads env secret_string))
                    (\<lambda>json_body.
                       io_bind (io_pure (py_getitem_str json_body ''USERNAME''))
                         (\<lambda>u.
                            io_bind (io_pure (py_getitem_str json_body ''PASSWORD''))
                              (\<lambda>p. io_pure (Inr (PTuple [u, p]))))))))
       (\<lambda>message. build_response (PDict [(''status'', PStr ''error''), (''message'', PStr message)]))"

definition get_embedding :: "env \<Rightarrow> pyval \<Rightarrow> pyval io" where
  "get_embedding env passage =
     (let body = json_dumps (PDict [(''inputText'', PStr (py_str passage))])
      in except_ClientError
           (io_bind ([InvokeModel body (EMBEDDING_MODEL_ID env) ''application/json'' ''application/json''],
                     invoke_model env body (EMBEDDING_MODEL_ID env) ''application/json'' ''application/json'')
              (\<lambda>raw.
                 io_bind (io_pure (json_loads env raw))
                   (\<lambda>response. io_pure (py_get response ''embedding'' PNone))))
           (\<lambda>message. build_response (PDict [(''status'', PStr ''error''), (''message'', PStr message)])))"

definition search_query :: "int \<Rightarrow> pyval \<Rightarrow> pyval" where
  "search_query k vector =
     PDict [(''size'', PInt k),
            (''query'', PDict [(''knn'', PDict [(''vector_field'',
                PDict [(''vector'', vector), (''k'', PInt k)])])])]"

definition get_hits :: "env \<Rightarrow> pyval \<Rightarrow> string \<Rightarrow> pyval \<Rightarrow> pyval \<Rightarrow> pyval io" where
  "get_hits env query url username password =
     (let k = 3
      in io_bind (get_embedding env query)
           (\<lambda>vector.
              io_bind ([RequestsPost url username password (search_query k vector) 10],
                       requests_post env url username password (search_query k vector) 10)
                (\<lambda>response.
                   io_bind (io_pure (py_getitem_str response ''hits''))
                     (\<lambda>outer. io_pure (py_getitem_str outer ''hits'')))))"

text \<open>
  The loop that logs every hit: it reads \<^verbatim>\<open>hit['_score']\<close>,
  \<^verbatim>\<open>hit['_source']['file_name']\<close> and \<^verbatim>\<open>hit['_source']['passage']\<close>, in that order, and a
  read that fails ends the request.
\<close>

definition log_hit :: "pyval \<Rightarrow> unit result" where
  "log_hit hit =
     (case py_getitem_str hit ''_score'' of
        Inl e \<Rightarrow> Inl e
      | Inr score \<Rightarrow>
          (case py_getitem_str hit ''_source'' of
             Inl e \<Rightarrow> Inl e
           | Inr src \<Rightarrow>
               (case py_getitem_str src ''file_name'' of
                  Inl e \<Rightarrow> Inl e
                | Inr file_name \<Rightarrow>
                    (case py_getitem_str hit ''_source'' of
                       Inl e \<Rightarrow> Inl e
                     | Inr src' \<Rightarrow>
                         (case py_getitem_str src' ''passage'' of
                            Inl e \<Rightarrow> Inl e
                          | Inr passage \<Rightarrow> Inr ())))))"

fun log_hits :: "pyval list \<Rightarrow> unit result" where
  "log_hits [] = Inr ()"
| "log_hits (hit # rest) = (case log_hit hit of Inl e \<Rightarrow> Inl e | Inr u \<Rightarrow> log_hits rest)"

definition prompt_template :: "pyval \<Rightarrow> pyval \<Rightarrow> string" where
  \<open>prompt_template context question =
     [CHR 0x0A, CHR 0x0A]
     @ ''Human: Your name is Ada, and you are a helpful assistant, helping a Human answer questions with the tone of a stereotypical pirate. Use the following as additional context to provide a concise answer to the question at the end, but don't say that you're using additional context.''
     @ [CHR 0x0A, CHR 0x0A]
     @ ''    <reference>'' @ [CHR 0x0A]
     @ ''    '' @ py_str context @ [CHR 0x0A]
     @ ''    </reference>'' @ [CHR 0x0A]
     @ ''    '' @ [CHR 0x0A]
     @ ''    Question: '' @ py_str question @ [CHR 0x0A, CHR 0x0A] @ ''Assistant:''\<close>

definition top_passage :: "pyval \<Rightarrow> pyval result" where
  "top_passage hits =
     (case py_getitem_int hits 0 of
        Inl e \<Rightarrow> Inl e
      | Inr hit \<Rightarrow>
          (case py_getitem_str hit ''_source'' of
             Inl e \<Rightarrow> Inl e
           | Inr src \<Rightarrow> py_getitem_str src ''passage''))"

definition generation_body :: "string \<Rightarrow> string" where
  "generation_body prompt =
     json_dumps (PDict [(''prompt'', PStr prompt),
                        (''max_tokens_to_sample'', PInt 200),
                        (''anthropic_version'', PStr ''bedrock-2023-05-31'')])"

definition get_prediction :: "env \<Rightarrow> pyval \<Rightarrow> pyval io" where
  "get_prediction env question =
     (let region = (case AWS_REGION env of Some r \<Rightarrow> Some r | None \<Rightarrow> AWS_DEFAULT_REGION env)
      in case OPENSEARCH_ENDPOINT env of
           None \<Rightarrow>
             io_pure (Inl (Exception ''AttributeError''
               (quoted ''NoneType'' @ '' object has no attribute '' @ quoted ''startswith'')))
         | Some ep \<Rightarrow>
            (let domain_endpoint = (if \<not> prefix ''https://'' ep then ''https://'' @ ep else ep)
             in io_bind (get_credentials env (OPENSEARCH_SECRET env) region)
                  (\<lambda>credentials.
                io_bind (io_pure (unpack2 credentials))
                  (\<lambda>(username, password).
                io_bind (verify_index env domain_endpoint (OPENSEARCH_INDEX env) username password)
                  (\<lambda>verify_response.
                if py_truthy verify_response then io_pure (Inr verify_response)
                else
                  (let search_url = domain_endpoint @ ''/'' @ str_opt (OPENSEARCH_INDEX env) @ ''/_search''
                   in io_bind (get_hits env question search_url username password)
                        (\<lambda>hits.
                      io_bind (io_pure (py_iter hits))
                        (\<lambda>hit_list.
                      io_bind (io_pure (log_hits hit_list))
                        (\<lambda>u.
                      io_bind (io_pure (top_passage hits))
                        (\<lambda>context.
                      (let body = generation_body (prompt_template context question)
                       in io_bind ([InvokeModel body (TEXT_MODEL_ID env) ''*/*'' ''application/json''],
                                   invoke_model env body (TEXT_MODEL_ID env) ''*/*'' ''application/json'')
                            (\<lambda>raw.
                          io_bind (io_pure (json_loads env raw))
                            (\<lambda>response_body.
                          io_pure (py_get response_body ''completion'' PNone))))))))))))))"

text \<open>
  \<^verbatim>\<open>synthesize_speech\<close>: two calls to Polly, each in its own \<^verbatim>\<open>try\<close> whose handler
  catches every \<^verbatim>\<open>Exception\<close> and writes it into the dictionary.
\<close>

definition exception_str :: "string \<Rightarrow> exn \<Rightarrow> string" where
  "exception_str channel e =
     channel @ '' Exception: '' @ exn_name e @ '' Message: '' @ exn_str e"

definition synthesize_speech :: "env \<Rightarrow> pyval \<Rightarrow> pyval \<Rightarrow> pyval \<Rightarrow> pyval io" where
  "synthesize_speech env text voice_id voice_engine =
     (let speech_info = [];
          speech_info =
            (case polly_synthesize_speech env ''pcm'' None text voice_id voice_engine of
               Inr audio \<Rightarrow>
                 dict_set (dict_set speech_info ''sound_status'' (PStr ''ok''))
                   ''sound_response'' (PStr (b64encode audio))
             | Inl e \<Rightarrow>
                 dict_set (dict_set speech_info ''sound_status'' (PStr ''error''))
                   ''sound_error'' (PStr (exception_str ''Audio'' e)));
          speech_info =
            (case polly_synthesize_speech env ''json'' (Some [''viseme'']) text voice_id voice_engine of
               Inr marks \<Rightarrow>
                 dict_set (dict_set speech_info ''viseme_status'' (PStr ''ok''))
                   ''viseme_response'' (PStr (b64encode marks))
             | Inl e \<Rightarrow>
                 dict_set (dict_set speech_info ''viseme_status'' (PStr ''error''))
                   ''viseme_error'' (PStr (exception_str ''Viseme'' e)))
      in ([SynthesizeSpeech ''pcm'' None text voice_id voice_engine,
           SynthesizeSpeech ''json'' (Some [''viseme'']) text voice_id voice_engine],
          Inr (PDict speech_info)))"

definition lambda_handler :: "env \<Rightarrow> pyval \<Rightarrow> pyval io" where
  "lambda_handler env event =
     io_bind (io_pure (py_getitem_str event ''body''))
       (\<lambda>raw_body.
     io_bind (io_pure (py_json_loads env raw_body))
       (\<lambda>body.
     io_bind (io_pure (validate_inputs body))
       (\<lambda>validate_response.
     if py_truthy validate_response then io_pure (Inr validate_response)
     else
       io_bind (io_pure (py_getitem_str body ''question''))
         (\<lambda>question.
       io_bind (io_pure (py_get body ''voice_id'' (PStr ''Ruth'')))
         (\<lambda>voice_id.
       io_bind (io_pure (py_get body ''voice_engine'' (PStr ''neural'')))
         (\<lambda>voice_engine.
       io_bind (get_prediction env question)
         (\<lambda>response.
       io_bind (synthesize_speech env response voice_id voice_engine)
         (\<lambda>speech_info.
       io_pure (Inr (build_response
         (PDict [(''response'', response), (''speech_info'', speech_info)])))))))))))"

section \<open>A sample deployment and sample requests\<close>

text \<open>
  A concrete environment on which the definitions above can be run: every service
  answers, the index holds one passage, the model answers in character. \<open>json_loads\<close>
  is given by its value on the JSON texts that occur.
\<close>

definition sample_json_loads :: "string \<Rightarrow> pyval result" where
  \<open>sample_json_loads s =
     (if s = ''{"USERNAME": "admin", "PASSWORD": "pw"}''
        then Inr (PDict [(''USERNAME'', PStr ''admin''), (''PASSWORD'', PStr ''pw'')])
      else if s = ''{"question": "What is your name?"}''
        then Inr (PDict [(''question'', PStr ''What is your name?'')])
      else if s = ''{"voice_id": "Joanna"}''
        then Inr (PDict [(''voice_id'', PStr ''Joanna'')])
      else if s = ''{"embedding": [0.5]}''
        then Inr (PDict [(''embedding'', PList [PFloat ''0.5''])])
      else if s = ''{"completion": "Arr, I be called Ada!"}''
        then Inr (PDict [(''completion'', PStr ''Arr, I be called Ada!'')])
      else Inl (Exception ''JSONDecodeError'' ''Expecting value: line 1 column 1 (char 0)''))\<close>

definition sample_hit :: pyval where
  "sample_hit =
     PDict [(''_score'', PFloat ''0.9''),
            (''_source'', PDict [(''file_name'', PStr ''ada.txt''),
                                 (''passage'', PStr ''Ada is an assistant.'')])]"

definition sample_env :: env where
  \<open>sample_env = \<lparr>
     TEXT_MODEL_ID = ''anthropic.claude-v2'',
     EMBEDDING_MODEL_ID = ''amazon.titan-embed-text-v1'',
     OPENSEARCH_ENDPOINT = Some ''search.example.com'',
     OPENSEARCH_SECRET = Some ''opensearch-secret'',
     OPENSEARCH_INDEX = Some ''npc'',
     AWS_REGION = Some ''us-east-1'',
     AWS_DEFAULT_REGION = None,
     json_loads = sample_json_loads,
     get_secret_value =
       (\<lambda>secret_id region.
          Inr (PDict [(''SecretString'', PStr ''{"USERNAME": "admin", "PASSWORD": "pw"}'')])),
     requests_head = (\<lambda>url username password timeout. Inr 200),
     requests_post =
       (\<lambda>url username password query timeout.
          Inr (PDict [(''hits'', PDict [(''hits'', PList [sample_hit])])])),
     invoke_model =
       (\<lambda>body model accept content_type.
          if model = ''amazon.titan-embed-text-v1'' then Inr ''{"embedding": [0.5]}''
          else Inr ''{"completion": "Arr, I be called Ada!"}''),
     polly_synthesize_speech =
       (\<lambda>output_format marks text voice engine.
          if output_format = ''pcm'' then Inr [1, 2, 3] else Inr [123, 125])
   \<rparr>\<close>

definition sample_event :: pyval where
  \<open>sample_event = PDict [(''body'', PStr ''{"question": "What is your name?"}'')]\<close>

definition sample_question :: pyval where
  "sample_question = PStr ''What is your name?''"


text \<open>A request whose body has no \<^verbatim>\<open>question\<close>.\<close>

definition event_without_question :: pyval where
  \<open>event_without_question = PDict [(''body'', PStr ''{"voice_id": "Joanna"}'')]\<close>

text \<open>The index answers the probe with 404.\<close>

definition env_index_missing :: env where
  "env_index_missing = sample_env\<lparr>requests_head := (\<lambda>url username password timeout. Inr 404)\<rparr>"

text \<open>The search finds nothing.\<close>

definition env_no_hits :: env where
  "env_no_hits =
     sample_env\<lparr>requests_post :=
       (\<lambda>url username password query timeout. Inr (PDict [(''hits'', PDict [(''hits'', PList [])])]))\<rparr>"

text \<open>Secrets Manager rejects the lookup.\<close>

definition secret_not_found :: exn where
  \<open>secret_not_found =
     ClientError ''ResourceNotFoundException''
       ''Secrets Manager can't find the specified secret.''
       ''An error occurred (ResourceNotFoundException) when calling the GetSecretValue operation: Secrets Manager can't find the specified secret.''\<close>

definition env_secret_rejected :: env where
  "env_secret_rejected = sample_env\<lparr>get_secret_value := (\<lambda>secret_id region. Inl secret_not_found)\<rparr>"

text \<open>
  Bedrock rejects the embedding request; the search service, handed a query whose vector
  is not a vector, answers with its error document.
\<close>

definition embedding_throttled :: exn where
  "embedding_throttled =
     ClientError ''ThrottlingException''
       ''Too many requests, please wait before trying again.''
       ''An error occurred (ThrottlingException) when calling the InvokeModel operation: Too many requests, please wait before trying again.''"

definition env_embedding_rejected :: env where
  "env_embedding_rejected =
     sample_env\<lparr>
       invoke_model :=
         (\<lambda>body model accept content_type.
            if model = ''amazon.titan-embed-text-v1'' then Inl embedding_throttled
            else Inr ''{\"completion\": \"Arr, I be called Ada!\"}''),
       requests_post :=
         (\<lambda>url username password query timeout.
            Inr (PDict [(''error'', PDict [(''type'', PStr ''x_content_parse_exception'')]),
                        (''status'', PInt 400)]))\<rparr>"

text \<open>Polly fails on the audio request and answers the viseme request.\<close>

definition audio_failure :: exn where
  "audio_failure = Exception ''EndpointConnectionError'' ''Could not connect to the endpoint URL''"

definition env_audio_fails :: env where
  "env_audio_fails =
     sample_env\<lparr>polly_synthesize_speech :=
       (\<lambda>output_format marks text voice engine.
          if output_format = ''pcm'' then Inl audio_failure else Inr [123, 125])\<rparr>"

text \<open>Secrets Manager rejects the lookup and the index is missing.\<close>

definition env_outage :: env where
  "env_outage = env_index_missing\<lparr>get_secret_value := (\<lambda>secret_id region. Inl secret_not_found)\<rparr>"

section \<open>Properties\<close>

subsection \<open>Auxiliary facts\<close>


lemma build_response_truthy [simp]: "py_truthy (build_response b)"
  by (simp add: build_response_def)

lemma io_bind_pure_Inr: "io_bind (io_pure (Inr x)) f = f x"
  by (simp add: io_bind_def io_pure_def split: prod.split)

lemma io_bind_pure_Inl: "io_bind (io_pure (Inl e)) f = io_pure (Inl e)"
  by (simp add: io_bind_def io_pure_def)

lemma io_bind_Inl: "io_bind (t, Inl e) f = (t, Inl e)"
  by (simp add: io_bind_def)

lemma io_bind_Inr: "io_bind (t, Inr x) f = (t @ fst (f x), snd (f x))"
  by (simp add: io_bind_def split: prod.split)

lemma io_bind_returns:
  "io_bind m f = (t, Inr r) \<Longrightarrow> \<exists>t1 x t2. m = (t1, Inr x) \<and> f x = (t2, Inr r) \<and> t = t1 @ t2"
  by (cases m) (auto simp: io_bind_def split: sum.splits prod.splits)

lemma validate_inputs_cases:
  "validate_inputs body = Inr r \<Longrightarrow>
     r = PNone \<or> r = build_response (PDict [(''status'', PStr ''error''),
                        (''message'', PStr ''question missing in request payload'')])"
  by (auto simp: validate_inputs_def split: sum.splits bool.splits)

lemma validate_inputs_truthy:
  "validate_inputs body = Inr r \<Longrightarrow> py_truthy r \<Longrightarrow>
     r = build_response (PDict [(''status'', PStr ''error''),
                        (''message'', PStr ''question missing in request payload'')])"
  by (drule validate_inputs_cases) auto


lemma lambda_handler_returns_response:
  assumes "lambda_handler env event = (t, Inr r)"
  shows "\<exists>b. r = build_response b"
  using assms unfolding lambda_handler_def
  by (auto simp: io_bind_def io_pure_def split: sum.splits prod.splits if_splits
       dest: validate_inputs_truthy)


lemmas sample_defs =
  sample_env_def sample_json_loads_def sample_event_def sample_question_def sample_hit_def

lemmas pipeline_defs =
  lambda_handler_def get_prediction_def get_credentials_def verify_index_def get_hits_def
  get_embedding_def validate_inputs_def io_bind_def io_pure_def except_ClientError_def
  unpack2_def top_passage_def log_hit_def seq_index_def

lemma verify_index_cases:
  "snd (verify_index env endpoint index username password) = Inr r \<Longrightarrow>
     r = PNone \<or> r = build_response (PDict [(''status'', PStr ''error''),
                        (''message'', PStr not_hydrated_message)])"
  by (auto simp: verify_index_def io_bind_def io_pure_def Let_def split: sum.splits if_splits)

lemma get_credentials_ClientError:
  "get_secret_value env secret_id region = Inl (ClientError n message s) \<Longrightarrow>
   get_credentials env secret_id region =
     ([GetSecretValue secret_id region],
      Inr (build_response (PDict [(''status'', PStr ''error''), (''message'', PStr message)])))"
  by (simp add: get_credentials_def io_bind_def except_ClientError_def)

text \<open>
  Claim C10. Whatever body it is given, \<^verbatim>\<open>build_response\<close> (either copy) answers with
  status code 200, content type \<^verbatim>\<open>application/json\<close> and the body serialised by
  \<^verbatim>\<open>json.dumps\<close>. Every value the handler returns is such a response, and so are the
  error values of \<^verbatim>\<open>validate_inputs\<close>, \<^verbatim>\<open>verify_index\<close> and \<^verbatim>\<open>get_credentials\<close>:
  an error shows only as \<^verbatim>\<open>"status": "error"\<close> inside the body.
\<close>

theorem responses_carry_status_200:
  "py_getitem_str (build_response b) ''statusCode'' = Inr (PInt 200)
   \<and> py_getitem_str (build_response b) ''headers'' = Inr (PDict [(''Content-Type'', PStr ''application/json'')])
   \<and> py_getitem_str (build_response b) ''body'' = Inr (PStr (json_dumps b))
   \<and> py_getitem_str (build_response_text b) ''statusCode'' = Inr (PInt 200)
   \<and> py_getitem_str (build_response_text b) ''headers'' = Inr (PDict [(''Content-Type'', PStr ''application/json'')])
   \<and> py_getitem_str (build_response_text b) ''body'' = Inr (PStr (json_dumps b))
   \<and> (lambda_handler env event = (t, Inr r) \<longrightarrow> (\<exists>b'. r = build_response b'))
   \<and> (validate_inputs body = Inr v \<longrightarrow>
        v = PNone \<or> v = build_response (PDict [(''status'', PStr ''error''),
                          (''message'', PStr ''question missing in request payload'')]))
   \<and> (snd (verify_index env endpoint index username password) = Inr w \<longrightarrow>
        w = PNone \<or> w = build_response (PDict [(''status'', PStr ''error''),
                          (''message'', PStr not_hydrated_message)]))
   \<and> (get_secret_value env secret_id region = Inl (ClientError n message s) \<longrightarrow>
        snd (get_credentials env secret_id region) =
          Inr (build_response (PDict [(''status'', PStr ''error''), (''message'', PStr message)])))"
  using lambda_handler_returns_response [of env event t r] validate_inputs_cases [of body v]
    verify_index_cases [of env endpoint index username password w]
    get_credentials_ClientError [of env secret_id region n message s]
  by (simp add: build_response_def build_response_text_def)


theorem responses_carry_status_200_witness:
  "lambda_handler env_outage event_without_question =
     ([], Inr (build_response (PDict [(''status'', PStr ''error''),
                 (''message'', PStr ''question missing in request payload'')])))
   \<and> validate_inputs (PDict [(''voice_id'', PStr ''Joanna'')]) =
       Inr (build_response (PDict [(''status'', PStr ''error''),
                 (''message'', PStr ''question missing in request payload'')]))
   \<and> snd (verify_index env_outage ''https://search.example.com'' (Some ''npc'') (PStr ''admin'') (PStr ''pw'')) =
       Inr (build_response (PDict [(''status'', PStr ''error''), (''message'', PStr not_hydrated_message)]))
   \<and> get_secret_value env_outage (Some ''opensearch-secret'') (Some ''us-east-1'') = Inl secret_not_found
   \<and> snd (get_credentials env_outage (Some ''opensearch-secret'') (Some ''us-east-1'')) =
       Inr (build_response (PDict [(''status'', PStr ''error''),
              (''message'', PStr ''Secrets Manager can't find the specified secret.'')]))
   \<and> py_getitem_str (build_response (PDict [(''status'', PStr ''error''),
              (''message'', PStr ''question missing in request payload'')])) ''statusCode'' = Inr (PInt 200)"
proof -
  have h1: "lambda_handler env_outage event_without_question =
     ([], Inr (build_response (PDict [(''status'', PStr ''error''),
                 (''message'', PStr ''question missing in request payload'')])))"
    by (simp add: lambda_handler_def validate_inputs_def io_bind_def io_pure_def sample_defs
          env_outage_def env_index_missing_def event_without_question_def)
  have h2: "validate_inputs (PDict [(''voice_id'', PStr ''Joanna'')]) =
       Inr (build_response (PDict [(''status'', PStr ''error''),
                 (''message'', PStr ''question missing in request payload'')]))"
    by (simp add: validate_inputs_def)
  have h3: "snd (verify_index env_outage ''https://search.example.com'' (Some ''npc'') (PStr ''admin'') (PStr ''pw'')) =
       Inr (build_response (PDict [(''status'', PStr ''error''), (''message'', PStr not_hydrated_message)]))"
    by (simp add: verify_index_def io_bind_def io_pure_def sample_defs env_outage_def env_index_missing_def)
  have h4: "get_secret_value env_outage (Some ''opensearch-secret'') (Some ''us-east-1'') =
      Inl (ClientError ''ResourceNotFoundException''
       ''Secrets Manager can't find the specified secret.''
       ''An error occurred (ResourceNotFoundException) when calling the GetSecretValue operation: Secrets Manager can't find the specified secret.'')"
    by (simp add: env_outage_def secret_not_found_def)
  have h4': "get_secret_value env_outage (Some ''opensearch-secret'') (Some ''us-east-1'') = Inl secret_not_found"
    by (simp add: env_outage_def)
  from h1 h2 h3 h4 h4' responses_carry_status_200
    [where b = "PDict [(''status'', PStr ''error''), (''message'', PStr ''question missing in request payload'')]"
       and env = env_outage and event = event_without_question and t = "[]"
       and r = "build_response (PDict [(''status'', PStr ''error''), (''message'', PStr ''question missing in request payload'')])"
       and body = "PDict [(''voice_id'', PStr ''Joanna'')]"
       and v = "build_response (PDict [(''status'', PStr ''error''), (''message'', PStr ''question missing in request payload'')])"
       and endpoint = "''https://search.example.com''" and index = "Some ''npc''"
       and username = "PStr ''admin''" and password = "PStr ''pw''"
       and w = "build_response (PDict [(''status'', PStr ''error''), (''message'', PStr not_hydrated_message)])"
       and secret_id = "Some ''opensearch-secret''" and region = "Some ''us-east-1''"
       and n = "''ResourceNotFoundException''"
       and message = "''Secrets Manager can't find the specified secret.''"
       and s = "''An error occurred (ResourceNotFoundException) when calling the GetSecretValue operation: Secrets Manager can't find the specified secret.''"]
  show ?thesis by blast
qed

text \<open>
  Claim C6. When the request body is a JSON object without the key \<^verbatim>\<open>question\<close>, the
  handler returns the validation error, whose body is
  \<^verbatim>\<open>{"status": "error", "message": "question missing in request payload"}\<close>, and makes no
  remote call at all.
\<close>

theorem missing_question_is_rejected:
  assumes "py_getitem_str event ''body'' = Inr raw_body"
      and "py_json_loads env raw_body = Inr (PDict kvs)"
      and "''question'' \<notin> set (map fst kvs)"
  shows \<open>lambda_handler env event =
           ([], Inr (build_response (PDict [(''status'', PStr ''error''),
                       (''message'', PStr ''question missing in request payload'')])))
         \<and> build_response (PDict [(''status'', PStr ''error''),
                       (''message'', PStr ''question missing in request payload'')]) =
             PDict [(''statusCode'', PInt 200),
                    (''headers'', PDict [(''Content-Type'', PStr ''application/json'')]),
                    (''body'', PStr ''{"status": "error", "message": "question missing in request payload"}'')]\<close>
  using assms
  by (simp add: lambda_handler_def validate_inputs_def io_bind_def io_pure_def build_response_def
        json_string_def json_escape_char_def)

theorem missing_question_is_rejected_witness:
  \<open>py_getitem_str event_without_question ''body'' = Inr (PStr ''{"voice_id": "Joanna"}'')
   \<and> py_json_loads sample_env (PStr ''{"voice_id": "Joanna"}'') = Inr (PDict [(''voice_id'', PStr ''Joanna'')])
   \<and> ''question'' \<notin> set (map fst [(''voice_id'', PStr ''Joanna'')])
   \<and> lambda_handler sample_env event_without_question =
       ([], Inr (PDict [(''statusCode'', PInt 200),
                    (''headers'', PDict [(''Content-Type'', PStr ''application/json'')]),
                    (''body'', PStr ''{"status": "error", "message": "question missing in request payload"}'')]))\<close>
proof -
  have h1: \<open>py_getitem_str event_without_question ''body'' = Inr (PStr ''{"voice_id": "Joanna"}'')\<close>
    by (simp add: event_without_question_def)
  have h2: \<open>py_json_loads sample_env (PStr ''{"voice_id": "Joanna"}'') = Inr (PDict [(''voice_id'', PStr ''Joanna'')])\<close>
    by (simp add: sample_defs)
  have h3: "''question'' \<notin> set (map fst [(''voice_id'', PStr ''Joanna'')])"
    by simp
  from missing_question_is_rejected [OF h1 h2 h3] h1 h2 h3 show ?thesis
    by simp
qed

subsection \<open>Base64\<close>

lemma split_div: fixes a b n :: nat shows "b < n \<Longrightarrow> (a * n + b) div n = a"
  by simp

lemma split_mod: fixes a b n :: nat shows "b < n \<Longrightarrow> (a * n + b) mod n = b"
  by simp

lemma hi16: fixes y :: nat shows "y < 256 \<Longrightarrow> y div 16 < 16"
  by (simp add: less_mult_imp_div_less)

lemma hi64: fixes z :: nat shows "z < 256 \<Longrightarrow> z div 64 < 4"
  by (simp add: less_mult_imp_div_less)

lemma hi4: fixes x :: nat shows "x < 256 \<Longrightarrow> x div 4 < 64"
  by (simp add: less_mult_imp_div_less)

lemma sextets_to_bytes:
  fixes x y z :: nat
  assumes "x < 256" "y < 256" "z < 256"
  shows "(x div 4) * 4 + (x mod 4 * 16 + y div 16) div 16 = x"
    and "(x mod 4 * 16 + y div 16) mod 16 * 16 + (y mod 16 * 4 + z div 64) div 4 = y"
    and "(y mod 16 * 4 + z div 64) mod 4 * 64 + z mod 64 = z"
  using assms by (simp_all add: split_div split_mod hi16 hi64)

lemma sextets_bounded:
  fixes x y z :: nat
  assumes "x < 256" "y < 256" "z < 256"
  shows "x div 4 < 64" and "x mod 4 * 16 + y div 16 < 64" and "y mod 16 * 4 + z div 64 < 64" and "z mod 64 < 64"
proof -
  show "x div 4 < 64" using assms by (simp add: hi4)
  have "x mod 4 < 4" "y div 16 < 16" using assms by (simp_all add: hi16)
  then show "x mod 4 * 16 + y div 16 < 64" by linarith
  have "y mod 16 < 16" "z div 64 < 4" using assms by (simp_all add: hi64)
  then show "y mod 16 * 4 + z div 64 < 64" by linarith
  show "z mod 64 < 64" by simp
qed

lemma b64_index_char: "i < 64 \<Longrightarrow> b64_index (b64_char i) = Some i"
  by (auto simp add: b64_index_def b64_char_def Let_def)

lemma b64_char_not_pad: "i < 64 \<Longrightarrow> b64_char i \<noteq> CHR ''=''"
proof
  assume "i < 64" and "b64_char i = CHR ''=''"
  then have "b64_index (CHR ''='') = Some i" using b64_index_char by metis
  then show False by (simp add: b64_index_def)
qed

lemma unat_byte: "unat (a :: byte) < 256"
  using unsigned_less [of a, where ?'a = nat] by simp

lemma b64decode_group:
  fixes a b c :: byte
  shows "b64decode ([b64_char (unat a div 4), b64_char (unat a mod 4 * 16 + unat b div 16),
      b64_char (unat b mod 16 * 4 + unat c div 64), b64_char (unat c mod 64)] @ cs)
    = map_option (\<lambda>bs. a # b # c # bs) (b64decode cs)"
  using sextets_bounded [OF unat_byte [of a] unat_byte [of b] unat_byte [of c]]
    sextets_to_bytes [OF unat_byte [of a] unat_byte [of b] unat_byte [of c]]
  by (simp add: b64_index_char b64_char_not_pad)

lemma b64decode_last_one:
  fixes a :: byte
  shows "b64decode [b64_char (unat a div 4), b64_char (unat a mod 4 * 16), CHR ''='', CHR ''=''] = Some [a]"
  using sextets_bounded [OF unat_byte [of a] unat_byte [of 0] unat_byte [of 0]]
    sextets_to_bytes [OF unat_byte [of a] unat_byte [of 0] unat_byte [of 0]]
  by (simp add: b64_index_char)

lemma b64decode_last_two:
  fixes a b :: byte
  shows "b64decode [b64_char (unat a div 4), b64_char (unat a mod 4 * 16 + unat b div 16),
      b64_char (unat b mod 16 * 4), CHR ''=''] = Some [a, b]"
  using sextets_bounded [OF unat_byte [of a] unat_byte [of b] unat_byte [of 0]]
    sextets_to_bytes [OF unat_byte [of a] unat_byte [of b] unat_byte [of 0]]
  by (simp add: b64_index_char b64_char_not_pad)

lemma b64_round_trip: "b64decode (b64encode bs) = Some bs"
proof (induction bs rule: b64encode.induct)
  case 1
  show ?case by simp
next
  case (2 a)
  show ?case using b64decode_last_one [of a] by simp
next
  case (3 a b)
  show ?case using b64decode_last_two [of a b] by simp
next
  case (4 a b c rest)
  then show ?case using b64decode_group [of a b c "b64encode rest"] by simp
qed


lemma synthesize_speech_sound_ok:
  "polly_synthesize_speech env ''pcm'' None text voice_id voice_engine = Inr audio \<Longrightarrow>
   \<exists>info. snd (synthesize_speech env text voice_id voice_engine) = Inr (PDict info)
     \<and> map_of info ''sound_status'' = Some (PStr ''ok'')
     \<and> map_of info ''sound_response'' = Some (PStr (b64encode audio))"
  by (simp add: synthesize_speech_def Let_def split: sum.split)

lemma synthesize_speech_viseme_ok:
  "polly_synthesize_speech env ''json'' (Some [''viseme'']) text voice_id voice_engine = Inr marks \<Longrightarrow>
   \<exists>info. snd (synthesize_speech env text voice_id voice_engine) = Inr (PDict info)
     \<and> map_of info ''viseme_status'' = Some (PStr ''ok'')
     \<and> map_of info ''viseme_response'' = Some (PStr (b64encode marks))"
  by (simp add: synthesize_speech_def Let_def split: sum.split)

text \<open>
  Claim C9. Decoding the base64 text of any byte buffer gives the buffer back. In
  particular the \<^verbatim>\<open>sound_response\<close> and \<^verbatim>\<open>viseme_response\<close> that
  \<^verbatim>\<open>synthesize_speech\<close> writes decode to the bytes Polly sent.
\<close>

theorem base64_decode_encode_identity:
  "b64decode (b64encode bs) = Some bs
   \<and> (polly_synthesize_speech env ''pcm'' None speech voice_id voice_engine = Inr audio \<longrightarrow>
        (\<exists>info s. snd (synthesize_speech env speech voice_id voice_engine) = Inr (PDict info)
           \<and> map_of info ''sound_response'' = Some (PStr s) \<and> b64decode s = Some audio))
   \<and> (polly_synthesize_speech env ''json'' (Some [''viseme'']) speech voice_id voice_engine = Inr marks \<longrightarrow>
        (\<exists>info s. snd (synthesize_speech env speech voice_id voice_engine) = Inr (PDict info)
           \<and> map_of info ''viseme_response'' = Some (PStr s) \<and> b64decode s = Some marks))"
  using synthesize_speech_sound_ok [of env speech voice_id voice_engine audio]
    synthesize_speech_viseme_ok [of env speech voice_id voice_engine marks]
    b64_round_trip
  by blast

theorem base64_decode_encode_identity_witness:
  "polly_synthesize_speech sample_env ''pcm'' None (PStr ''Arr, I be called Ada!'') (PStr ''Ruth'') (PStr ''neural'') = Inr [1, 2, 3]
   \<and> polly_synthesize_speech sample_env ''json'' (Some [''viseme'']) (PStr ''Arr, I be called Ada!'') (PStr ''Ruth'') (PStr ''neural'') = Inr [123, 125]
   \<and> snd (synthesize_speech sample_env (PStr ''Arr, I be called Ada!'') (PStr ''Ruth'') (PStr ''neural'')) =
        Inr (PDict [(''sound_status'', PStr ''ok''), (''sound_response'', PStr ''AQID''),
                    (''viseme_status'', PStr ''ok''), (''viseme_response'', PStr ''e30='')])
   \<and> b64decode ''AQID'' = Some [1, 2, 3]
   \<and> b64decode ''e30='' = Some [123, 125]"
proof -
  have h1: "polly_synthesize_speech sample_env ''pcm'' None (PStr ''Arr, I be called Ada!'') (PStr ''Ruth'') (PStr ''neural'') = Inr [1, 2, 3]"
    by (simp add: sample_env_def)
  have h2: "polly_synthesize_speech sample_env ''json'' (Some [''viseme'']) (PStr ''Arr, I be called Ada!'') (PStr ''Ruth'') (PStr ''neural'') = Inr [123, 125]"
    by (simp add: sample_env_def)
  have e1: "b64encode [1, 2, 3] = ''AQID''"
    by code_simp
  have e2: "b64encode [123, 125] = ''e30=''"
    by code_simp
  have s: "snd (synthesize_speech sample_env (PStr ''Arr, I be called Ada!'') (PStr ''Ruth'') (PStr ''neural'')) =
        Inr (PDict [(''sound_status'', PStr ''ok''), (''sound_response'', PStr ''AQID''),
                    (''viseme_status'', PStr ''ok''), (''viseme_response'', PStr ''e30='')])"
    by (simp add: synthesize_speech_def h1 h2 e1 e2 del: b64encode.simps)
  have d1: "b64decode ''AQID'' = Some [1, 2, 3]"
    using b64_round_trip [of "[1, 2, 3]"] unfolding e1 .
  have d2: "b64decode ''e30='' = Some [123, 125]"
    using b64_round_trip [of "[123, 125]"] unfolding e2 .
  from h1 h2 s d1 d2
    base64_decode_encode_identity [of "[1, 2, 3]" sample_env "PStr ''Arr, I be called Ada!''" "PStr ''Ruth''" "PStr ''neural''" "[1, 2, 3]" "[123, 125]"]
  show ?thesis by blast
qed

subsection \<open>The pipeline on failing services\<close>

text \<open>
  Claim C1. The claim asks for a structured error when the search returns no hit. The
  handler has no such branch: with an empty hit list \<^verbatim>\<open>hits[0]\<close> raises
  \<^verbatim>\<open>IndexError\<close>, which leaves \<^verbatim>\<open>get_prediction\<close> and the handler unhandled.
\<close>

theorem empty_hit_list_raises_IndexError:
  "snd (get_hits env_no_hits sample_question ''https://search.example.com/npc/_search''
          (PStr ''admin'') (PStr ''pw'')) = Inr (PList [])
   \<and> get_prediction env_no_hits sample_question =
     ([GetSecretValue (Some ''opensearch-secret'') (Some ''us-east-1''),
       RequestsHead ''https://search.example.com/npc'' (PStr ''admin'') (PStr ''pw'') 10,
       InvokeModel ''{\"inputText\": \"What is your name?\"}'' ''amazon.titan-embed-text-v1''
         ''application/json'' ''application/json'',
       RequestsPost ''https://search.example.com/npc/_search'' (PStr ''admin'') (PStr ''pw'')
         (search_query 3 (PList [PFloat ''0.5''])) 10],
      Inl (Exception ''IndexError'' ''list index out of range''))
   \<and> snd (lambda_handler env_no_hits sample_event) =
       Inl (Exception ''IndexError'' ''list index out of range'')"
  by (simp add: pipeline_defs env_no_hits_def sample_defs json_string_def json_escape_char_def)

text \<open>
  Claim C3. \<^verbatim>\<open>get_credentials\<close> turns the \<^verbatim>\<open>ClientError\<close> into an error response and
  returns it, but \<^verbatim>\<open>get_prediction\<close> unpacks whatever is returned into
  \<^verbatim>\<open>username, password\<close>: the response has three keys, so the assignment raises
  \<^verbatim>\<open>ValueError\<close>. No later stage runs, and the exception leaves the handler.
\<close>

theorem rejected_secret_raises_ValueError:
  "get_credentials env_secret_rejected (Some ''opensearch-secret'') (Some ''us-east-1'') =
     ([GetSecretValue (Some ''opensearch-secret'') (Some ''us-east-1'')],
      Inr (build_response (PDict [(''status'', PStr ''error''),
             (''message'', PStr ''Secrets Manager can't find the specified secret.'')])))
   \<and> get_prediction env_secret_rejected sample_question =
     ([GetSecretValue (Some ''opensearch-secret'') (Some ''us-east-1'')],
      Inl (Exception ''ValueError'' ''too many values to unpack (expected 2)''))
   \<and> lambda_handler env_secret_rejected sample_event =
     ([GetSecretValue (Some ''opensearch-secret'') (Some ''us-east-1'')],
      Inl (Exception ''ValueError'' ''too many values to unpack (expected 2)''))"
  by (simp add: pipeline_defs env_secret_rejected_def secret_not_found_def sample_defs build_response_def)

text \<open>
  Claim C4. \<^verbatim>\<open>get_embedding\<close> turns the \<^verbatim>\<open>ClientError\<close> into an error response and
  returns it, but \<^verbatim>\<open>get_hits\<close> puts whatever is returned into the query as the vector
  and posts the search. The request does not end with the error response: here the
  search service answers with an error document and \<^verbatim>\<open>response["hits"]\<close> raises
  \<^verbatim>\<open>KeyError\<close>.
\<close>

theorem rejected_embedding_is_searched_with:
  "get_embedding env_embedding_rejected sample_question =
     ([InvokeModel ''{\"inputText\": \"What is your name?\"}'' ''amazon.titan-embed-text-v1''
         ''application/json'' ''application/json''],
      Inr (build_response (PDict [(''status'', PStr ''error''),
             (''message'', PStr ''Too many requests, please wait before trying again.'')])))
   \<and> lambda_handler env_embedding_rejected sample_event =
     ([GetSecretValue (Some ''opensearch-secret'') (Some ''us-east-1''),
       RequestsHead ''https://search.example.com/npc'' (PStr ''admin'') (PStr ''pw'') 10,
       InvokeModel ''{\"inputText\": \"What is your name?\"}'' ''amazon.titan-embed-text-v1''
         ''application/json'' ''application/json'',
       RequestsPost ''https://search.example.com/npc/_search'' (PStr ''admin'') (PStr ''pw'')
         (search_query 3
            (build_response (PDict [(''status'', PStr ''error''),
               (''message'', PStr ''Too many requests, please wait before trying again.'')]))) 10],
      Inl (Exception ''KeyError'' (quoted ''hits'')))"
  by (simp add: pipeline_defs env_embedding_rejected_def embedding_throttled_def sample_defs
        json_string_def json_escape_char_def repr_str_def repr_quote_def repr_escape_char_def
        quoted_def)


subsection \<open>The stages in order\<close>



lemma handler_after_validation:
  assumes "py_getitem_str event ''body'' = Inr raw_body"
      and "py_json_loads env raw_body = Inr (PDict kvs)"
      and "map_of kvs ''question'' = Some question"
      and "voice_id = (case map_of kvs ''voice_id'' of Some v \<Rightarrow> v | None \<Rightarrow> PStr ''Ruth'')"
      and "voice_engine = (case map_of kvs ''voice_engine'' of Some v \<Rightarrow> v | None \<Rightarrow> PStr ''neural'')"
  shows "lambda_handler env event =
     io_bind (get_prediction env question)
       (\<lambda>response.
          io_bind (synthesize_speech env response voice_id voice_engine)
            (\<lambda>speech_info.
               io_pure (Inr (build_response
                 (PDict [(''response'', response), (''speech_info'', speech_info)])))))"
proof -
  from assms(3) have "''question'' \<in> set (map fst kvs)"
    by (metis map_of_eq_None_iff option.distinct(1) set_map)
  with assms show ?thesis
    by (simp add: lambda_handler_def validate_inputs_def io_bind_pure_Inr)
qed





subsection \<open>Retrieval and the prompt\<close>

lemma get_embedding_trace:
  "fst (get_embedding env query) =
     [InvokeModel (json_dumps (PDict [(''inputText'', PStr (py_str query))])) (EMBEDDING_MODEL_ID env)
        ''application/json'' ''application/json'']"
  by (simp add: get_embedding_def io_bind_def io_pure_def except_ClientError_def Let_def
        split: sum.split exn.split prod.split)

lemma get_embedding_pair:
  "snd (get_embedding env query) = r \<Longrightarrow>
   get_embedding env query =
     ([InvokeModel (json_dumps (PDict [(''inputText'', PStr (py_str query))])) (EMBEDDING_MODEL_ID env)
        ''application/json'' ''application/json''], r)"
  using get_embedding_trace [of env query]
  by (cases "get_embedding env query") simp

text \<open>
  Claim C8. \<^verbatim>\<open>get_hits\<close> first calls the embedding model on the query; when that call
  returns a value, it posts exactly one search whose body asks for \<^verbatim>\<open>size\<close> 3 and
  \<^verbatim>\<open>k\<close> 3 on that value, with a timeout of 10 seconds, and returns
  \<^verbatim>\<open>response["hits"]["hits"]\<close>.
\<close>

theorem get_hits_embeds_then_searches_once:
  assumes "snd (get_embedding env query) = Inr vector"
      and "knn_query = PDict [(''size'', PInt 3),
             (''query'', PDict [(''knn'', PDict [(''vector_field'',
                PDict [(''vector'', vector), (''k'', PInt 3)])])])]"
  shows "fst (get_hits env query url username password) =
           [InvokeModel (json_dumps (PDict [(''inputText'', PStr (py_str query))])) (EMBEDDING_MODEL_ID env)
              ''application/json'' ''application/json'',
            RequestsPost url username password knn_query 10]
       \<and> (\<forall>response outer hits.
            requests_post env url username password knn_query 10 = Inr response \<longrightarrow>
            py_getitem_str response ''hits'' = Inr outer \<longrightarrow>
            py_getitem_str outer ''hits'' = Inr hits \<longrightarrow>
            snd (get_hits env query url username password) = Inr hits)"
  using get_embedding_pair [OF assms(1)] assms(2)
  by (simp add: get_hits_def search_query_def io_bind_def io_pure_def split: sum.split)

theorem get_hits_embeds_then_searches_once_witness:
  "snd (get_embedding sample_env sample_question) = Inr (PList [PFloat ''0.5''])
   \<and> requests_post sample_env ''https://search.example.com/npc/_search'' (PStr ''admin'') (PStr ''pw'')
        (PDict [(''size'', PInt 3),
             (''query'', PDict [(''knn'', PDict [(''vector_field'',
                PDict [(''vector'', PList [PFloat ''0.5'']), (''k'', PInt 3)])])])]) 10 =
       Inr (PDict [(''hits'', PDict [(''hits'', PList [sample_hit])])])
   \<and> get_hits sample_env sample_question ''https://search.example.com/npc/_search'' (PStr ''admin'') (PStr ''pw'') =
       ([InvokeModel ''{\"inputText\": \"What is your name?\"}'' ''amazon.titan-embed-text-v1''
           ''application/json'' ''application/json'',
         RequestsPost ''https://search.example.com/npc/_search'' (PStr ''admin'') (PStr ''pw'')
           (PDict [(''size'', PInt 3),
             (''query'', PDict [(''knn'', PDict [(''vector_field'',
                PDict [(''vector'', PList [PFloat ''0.5'']), (''k'', PInt 3)])])])]) 10],
        Inr (PList [sample_hit]))"
proof -
  have h1: "snd (get_embedding sample_env sample_question) = Inr (PList [PFloat ''0.5''])"
    by (simp add: get_embedding_def io_bind_def io_pure_def except_ClientError_def sample_defs
          json_string_def json_escape_char_def)
  have h2: "requests_post sample_env ''https://search.example.com/npc/_search'' (PStr ''admin'') (PStr ''pw'')
        (PDict [(''size'', PInt 3),
             (''query'', PDict [(''knn'', PDict [(''vector_field'',
                PDict [(''vector'', PList [PFloat ''0.5'']), (''k'', PInt 3)])])])]) 10 =
       Inr (PDict [(''hits'', PDict [(''hits'', PList [sample_hit])])])"
    by (simp add: sample_env_def)
  have h3: "py_getitem_str (PDict [(''hits'', PDict [(''hits'', PList [sample_hit])])]) ''hits'' =
       Inr (PDict [(''hits'', PList [sample_hit])])"
    by simp
  have h4: "py_getitem_str (PDict [(''hits'', PList [sample_hit])]) ''hits'' = Inr (PList [sample_hit])"
    by simp
  have e: "json_dumps (PDict [(''inputText'', PStr (py_str sample_question))]) =
       ''{\"inputText\": \"What is your name?\"}''"
    by (simp add: sample_question_def json_string_def json_escape_char_def)
  have m: "EMBEDDING_MODEL_ID sample_env = ''amazon.titan-embed-text-v1''"
    by (simp add: sample_env_def)
  note t = get_hits_embeds_then_searches_once
    [where url = "''https://search.example.com/npc/_search''" and username = "PStr ''admin''"
       and password = "PStr ''pw''", OF h1 refl]
  from t have t1: "fst (get_hits sample_env sample_question ''https://search.example.com/npc/_search''
       (PStr ''admin'') (PStr ''pw'')) =
     [InvokeModel ''{\"inputText\": \"What is your name?\"}'' ''amazon.titan-embed-text-v1''
           ''application/json'' ''application/json'',
         RequestsPost ''https://search.example.com/npc/_search'' (PStr ''admin'') (PStr ''pw'')
           (PDict [(''size'', PInt 3),
             (''query'', PDict [(''knn'', PDict [(''vector_field'',
                PDict [(''vector'', PList [PFloat ''0.5'']), (''k'', PInt 3)])])])]) 10]"
    unfolding e m by blast
  from t h2 h3 h4 have t2: "snd (get_hits sample_env sample_question ''https://search.example.com/npc/_search''
       (PStr ''admin'') (PStr ''pw'')) = Inr (PList [sample_hit])"
    by blast
  from t1 t2 have "get_hits sample_env sample_question ''https://search.example.com/npc/_search'' (PStr ''admin'') (PStr ''pw'') =
       ([InvokeModel ''{\"inputText\": \"What is your name?\"}'' ''amazon.titan-embed-text-v1''
           ''application/json'' ''application/json'',
         RequestsPost ''https://search.example.com/npc/_search'' (PStr ''admin'') (PStr ''pw'')
           (PDict [(''size'', PInt 3),
             (''query'', PDict [(''knn'', PDict [(''vector_field'',
                PDict [(''vector'', PList [PFloat ''0.5'']), (''k'', PInt 3)])])])]) 10],
        Inr (PList [sample_hit]))"
    by (cases "get_hits sample_env sample_question ''https://search.example.com/npc/_search'' (PStr ''admin'') (PStr ''pw'')") simp
  with h1 h2 show ?thesis by blast
qed






subsection \<open>Speech synthesis\<close>

text \<open>
  Claim C5. When \<^verbatim>\<open>get_prediction\<close> returns an answer and Polly's audio call raises,
  the handler still returns its normal response: the body has the keys \<^verbatim>\<open>response\<close>
  (the answer) and \<^verbatim>\<open>speech_info\<close> and no key \<^verbatim>\<open>status\<close>; \<^verbatim>\<open>speech_info\<close> has
  \<^verbatim>\<open>sound_status\<close> \<^verbatim>\<open>"error"\<close> and the exception's class and text in
  \<^verbatim>\<open>sound_error\<close>. The viseme call is made all the same, and its own outcome is
  reported beside.
\<close>

theorem speech_failure_keeps_answer:
  assumes "py_getitem_str event ''body'' = Inr raw_body"
      and "py_json_loads env raw_body = Inr (PDict kvs)"
      and "map_of kvs ''question'' = Some question"
      and "voice_id = (case map_of kvs ''voice_id'' of Some v \<Rightarrow> v | None \<Rightarrow> PStr ''Ruth'')"
      and "voice_engine = (case map_of kvs ''voice_engine'' of Some v \<Rightarrow> v | None \<Rightarrow> PStr ''neural'')"
      and "get_prediction env question = (t, Inr answer)"
      and "polly_synthesize_speech env ''pcm'' None answer voice_id voice_engine = Inl e"
      and "viseme =
             (case polly_synthesize_speech env ''json'' (Some [''viseme'']) answer voice_id voice_engine of
                Inr marks \<Rightarrow>
                  [(''viseme_status'', PStr ''ok''), (''viseme_response'', PStr (b64encode marks))]
              | Inl e' \<Rightarrow>
                  [(''viseme_status'', PStr ''error''),
                   (''viseme_error'',
                    PStr (''Viseme Exception: '' @ exn_name e' @ '' Message: '' @ exn_str e'))])"
      and "body =
             PDict [(''response'', answer),
                    (''speech_info'',
                     PDict ([(''sound_status'', PStr ''error''),
                             (''sound_error'',
                              PStr (''Audio Exception: '' @ exn_name e @ '' Message: '' @ exn_str e))]
                            @ viseme))]"
  shows "lambda_handler env event =
           (t @ [SynthesizeSpeech ''pcm'' None answer voice_id voice_engine,
                 SynthesizeSpeech ''json'' (Some [''viseme'']) answer voice_id voice_engine],
            Inr (build_response body))
       \<and> py_contains_str body ''status'' = Inr False
       \<and> py_getitem_str body ''response'' = Inr answer"
proof -
  have speech: "synthesize_speech env answer voice_id voice_engine =
      ([SynthesizeSpeech ''pcm'' None answer voice_id voice_engine,
        SynthesizeSpeech ''json'' (Some [''viseme'']) answer voice_id voice_engine],
       Inr (PDict ([(''sound_status'', PStr ''error''),
                    (''sound_error'',
                     PStr (''Audio Exception: '' @ exn_name e @ '' Message: '' @ exn_str e))]
                   @ viseme)))"
    using assms(7,8)
    by (simp add: synthesize_speech_def exception_str_def Let_def split: sum.split)
  from handler_after_validation [OF assms(1,2,3,4,5)] assms(6) speech assms(9)
  show ?thesis
    by (simp add: io_bind_def io_pure_def)
qed

theorem speech_failure_keeps_answer_witness:
  "py_getitem_str sample_event ''body'' = Inr (PStr ''{\"question\": \"What is your name?\"}'')
   \<and> py_json_loads env_audio_fails (PStr ''{\"question\": \"What is your name?\"}'') =
       Inr (PDict [(''question'', sample_question)])
   \<and> snd (get_prediction env_audio_fails sample_question) = Inr (PStr ''Arr, I be called Ada!'')
   \<and> polly_synthesize_speech env_audio_fails ''pcm'' None (PStr ''Arr, I be called Ada!'')
         (PStr ''Ruth'') (PStr ''neural'') = Inl audio_failure
   \<and> snd (lambda_handler env_audio_fails sample_event) =
       Inr (build_response
         (PDict [(''response'', PStr ''Arr, I be called Ada!''),
                 (''speech_info'',
                  PDict [(''sound_status'', PStr ''error''),
                         (''sound_error'',
                          PStr ''Audio Exception: EndpointConnectionError Message: Could not connect to the endpoint URL''),
                         (''viseme_status'', PStr ''ok''),
                         (''viseme_response'', PStr ''e30='')])]))"
proof -
  have h1: "py_getitem_str sample_event ''body'' = Inr (PStr ''{\"question\": \"What is your name?\"}'')"
    by (simp add: sample_event_def)
  have h2: "py_json_loads env_audio_fails (PStr ''{\"question\": \"What is your name?\"}'') =
       Inr (PDict [(''question'', sample_question)])"
    by (simp add: env_audio_fails_def sample_defs)
  have h3: "map_of [(''question'', sample_question)] ''question'' = Some sample_question"
    by simp
  have h4: "PStr ''Ruth'' =
      (case map_of [(''question'', sample_question)] ''voice_id'' of Some v \<Rightarrow> v | None \<Rightarrow> PStr ''Ruth'')"
    by simp
  have h5: "PStr ''neural'' =
      (case map_of [(''question'', sample_question)] ''voice_engine'' of Some v \<Rightarrow> v | None \<Rightarrow> PStr ''neural'')"
    by simp
  have h6': "snd (get_prediction env_audio_fails sample_question) = Inr (PStr ''Arr, I be called Ada!'')"
    by (simp add: pipeline_defs env_audio_fails_def sample_defs json_string_def json_escape_char_def)
  then have h6: "get_prediction env_audio_fails sample_question =
      (fst (get_prediction env_audio_fails sample_question), Inr (PStr ''Arr, I be called Ada!''))"
    by (simp add: prod_eq_iff)
  have h7: "polly_synthesize_speech env_audio_fails ''pcm'' None (PStr ''Arr, I be called Ada!'')
         (PStr ''Ruth'') (PStr ''neural'') = Inl audio_failure"
    by (simp add: env_audio_fails_def)
  have e: "b64encode [123, 125] = ''e30=''"
    by code_simp
  have h8: "[(''viseme_status'', PStr ''ok''), (''viseme_response'', PStr ''e30='')] =
      (case polly_synthesize_speech env_audio_fails ''json'' (Some [''viseme'']) (PStr ''Arr, I be called Ada!'')
              (PStr ''Ruth'') (PStr ''neural'') of
                Inr marks \<Rightarrow>
                  [(''viseme_status'', PStr ''ok''), (''viseme_response'', PStr (b64encode marks))]
              | Inl e' \<Rightarrow>
                  [(''viseme_status'', PStr ''error''),
                   (''viseme_error'',
                    PStr (''Viseme Exception: '' @ exn_name e' @ '' Message: '' @ exn_str e'))])"
    by (simp add: env_audio_fails_def e del: b64encode.simps)
  have h9: "PDict [(''response'', PStr ''Arr, I be called Ada!''),
                 (''speech_info'',
                  PDict [(''sound_status'', PStr ''error''),
                         (''sound_error'',
                          PStr ''Audio Exception: EndpointConnectionError Message: Could not connect to the endpoint URL''),
                         (''viseme_status'', PStr ''ok''),
                         (''viseme_response'', PStr ''e30='')])] =
     PDict [(''response'', PStr ''Arr, I be called Ada!''),
                    (''speech_info'',
                     PDict ([(''sound_status'', PStr ''error''),
                             (''sound_error'',
                              PStr (''Audio Exception: '' @ exn_name audio_failure @ '' Message: '' @ exn_str audio_failure))]
                            @ [(''viseme_status'', PStr ''ok''), (''viseme_response'', PStr ''e30='')]))]"
    by (simp add: audio_failure_def)
  note t = speech_failure_keeps_answer [OF h1 h2 h3 h4 h5 h6 h7 h8 h9]
  from t have "snd (lambda_handler env_audio_fails sample_event) =
       Inr (build_response
         (PDict [(''response'', PStr ''Arr, I be called Ada!''),
                 (''speech_info'',
                  PDict [(''sound_status'', PStr ''error''),
                         (''sound_error'',
                          PStr ''Audio Exception: EndpointConnectionError Message: Could not connect to the endpoint URL''),
                         (''viseme_status'', PStr ''ok''),
                         (''viseme_response'', PStr ''e30='')])]))"
    by (simp add: prod_eq_iff)
  with h1 h2 h6' h7 show ?thesis
    by (intro conjI)
qed

end
